theory Spec2Isabelle
  imports Complex_Main
begin

section \<open>JavaScript values\<close>

text \<open>
  The handlers of the server read the fields of a parsed request body and apply
  JavaScript's own coercions to them (\<^verbatim>\<open>!x\<close>, \<^verbatim>\<open>x < 1885\<close>, \<^verbatim>\<open>Number(x)\<close>,
  \<^verbatim>\<open>x === "on"\<close>, \<^verbatim>\<open>x.trim()\<close>). A field of a body is modelled as a primitive
  JavaScript value; a field the body does not have reads as \<open>JUndefined\<close>. Arrays
  and nested objects as field values are outside the model.

  A number is the value of an IEEE double: not-a-number, an infinity, or a finite value,
  kept as the rational it denotes. The program does no arithmetic on numbers, it only
  compares them, so nothing is rounded anywhere in the model.

  A string is a list of 8-bit characters, read as the code units 0..255.
\<close>

datatype jsnum = NaN | Finite rat | PosInf | NegInf

datatype jsval = JUndefined | JNull | JBool bool | JNum jsnum | JStr string

type_synonym oid = nat

text \<open>
  What the program takes from its platform and its libraries without the repository
  holding their code is a parameter of the model: ECMAScript's conversion of a string
  to a number and of a number to a string, the driver's conversion of a value to an
  ObjectId (\<open>None\<close>: the value is no ObjectId and Mongoose raises a CastError), and
  bcrypt. \<open>bcrypt_hash\<close> stands for the hash computed with the salt drawn in the
  request at hand.
\<close>

record lib =
  StringToNumber :: "string \<Rightarrow> jsnum"
  NumberToString :: "jsnum \<Rightarrow> string"
  castObjectId :: "jsval \<Rightarrow> oid option"
  bcrypt_hash :: "string \<Rightarrow> string"
  bcrypt_compare :: "string \<Rightarrow> string \<Rightarrow> bool"

text \<open>\<^verbatim>\<open>!x\<close> is \<open>\<not> truthy x\<close>.\<close>

fun truthy :: "jsval \<Rightarrow> bool" where
  "truthy JUndefined = False"
| "truthy JNull = False"
| "truthy (JBool b) = b"
| "truthy (JNum n) = (n \<noteq> NaN \<and> n \<noteq> Finite 0)"
| "truthy (JStr s) = (s \<noteq> [])"

text \<open>\<^verbatim>\<open>a || b\<close>\<close>

definition js_or :: "jsval \<Rightarrow> jsval \<Rightarrow> jsval" where
  "js_or a b = (if truthy a then a else b)"

text \<open>ECMAScript ToNumber on a primitive; \<^verbatim>\<open>Number(x)\<close> is ToNumber.\<close>

fun ToNumber :: "lib \<Rightarrow> jsval \<Rightarrow> jsnum" where
  "ToNumber L JUndefined = NaN"
| "ToNumber L JNull = Finite 0"
| "ToNumber L (JBool b) = (if b then Finite 1 else Finite 0)"
| "ToNumber L (JNum n) = n"
| "ToNumber L (JStr s) = StringToNumber L s"

definition Number :: "lib \<Rightarrow> jsval \<Rightarrow> jsnum" where
  "Number L v = ToNumber L v"

text \<open>Comparison of two numbers: false as soon as one of them is NaN.\<close>

fun jsnum_lt :: "jsnum \<Rightarrow> jsnum \<Rightarrow> bool" where
  "jsnum_lt NaN _ = False"
| "jsnum_lt _ NaN = False"
| "jsnum_lt (Finite a) (Finite b) = (a < b)"
| "jsnum_lt (Finite a) PosInf = True"
| "jsnum_lt (Finite a) NegInf = False"
| "jsnum_lt PosInf _ = False"
| "jsnum_lt NegInf (Finite b) = True"
| "jsnum_lt NegInf PosInf = True"
| "jsnum_lt NegInf NegInf = False"

fun jsnum_ge :: "jsnum \<Rightarrow> jsnum \<Rightarrow> bool" where
  "jsnum_ge NaN _ = False"
| "jsnum_ge _ NaN = False"
| "jsnum_ge (Finite a) (Finite b) = (a \<ge> b)"
| "jsnum_ge (Finite a) PosInf = False"
| "jsnum_ge (Finite a) NegInf = True"
| "jsnum_ge PosInf _ = True"
| "jsnum_ge NegInf (Finite b) = False"
| "jsnum_ge NegInf PosInf = False"
| "jsnum_ge NegInf NegInf = True"

text \<open>
  \<^verbatim>\<open>x < n\<close> with a number on the right: the left operand is converted by ToNumber.
\<close>

definition js_lt :: "lib \<Rightarrow> jsval \<Rightarrow> jsnum \<Rightarrow> bool" where
  "js_lt L v n = jsnum_lt (ToNumber L v) n"

text \<open>
  \<^verbatim>\<open>String.prototype.trim\<close>: white space and line terminators among the code units
  0..255 are tab, line feed, vertical tab, form feed, carriage return, space and the
  no-break space.
\<close>

definition is_ws :: "char \<Rightarrow> bool" where
  "is_ws c = (c \<in> set [CHR 0x09, CHR 0x0A, CHR 0x0B, CHR 0x0C, CHR 0x0D, CHR 0x20, CHR 0xA0])"

definition trim :: "string \<Rightarrow> string" where
  "trim s = rev (dropWhile is_ws (rev (dropWhile is_ws s)))"

text \<open>
  \<^verbatim>\<open>x.trim()\<close> on a value: a string is trimmed; on a number or a boolean the property
  \<^verbatim>\<open>trim\<close> is undefined and on \<^verbatim>\<open>undefined\<close> and \<^verbatim>\<open>null\<close> the property read itself
  fails, a TypeError (\<open>None\<close>) either way.
\<close>

fun method_trim :: "jsval \<Rightarrow> string option" where
  "method_trim (JStr s) = Some (trim s)"
| "method_trim _ = None"

text \<open>\<^verbatim>\<open>x?.trim() || ""\<close>\<close>

fun opt_trim_or_empty :: "jsval \<Rightarrow> string option" where
  "opt_trim_or_empty JUndefined = Some []"
| "opt_trim_or_empty JNull = Some []"
| "opt_trim_or_empty v =
     (case method_trim v of None \<Rightarrow> None | Some t \<Rightarrow> Some (if t \<noteq> [] then t else []))"

text \<open>\<^verbatim>\<open>xs.includes(v)\<close> on an array of string literals.\<close>

definition js_includes :: "string list \<Rightarrow> jsval \<Rightarrow> bool" where
  "js_includes xs v = (v \<in> set (map JStr xs))"

text \<open>\<^verbatim>\<open>xs.join(", ")\<close>\<close>

fun join_comma :: "string list \<Rightarrow> string" where
  "join_comma [] = []"
| "join_comma [x] = x"
| "join_comma (x # y # ys) = x @ '', '' @ join_comma (y # ys)"

section \<open>The data model\<close>

text \<open>
  A stored car has the paths of \<^verbatim>\<open>carSchema\<close> (models/Car.js) and the two time
  stamps that \<^verbatim>\<open>timestamps: true\<close> adds. A string path holds a string or null
  (\<open>None\<close>): an update can store null there. The collection is the list of its
  documents in insertion order.
\<close>

record car =
  car_id :: oid
  owner :: oid
  model :: "string option"
  year :: jsnum
  mpg :: jsnum
  car_notes :: "string option"
  fuel :: "string option"
  isElectric :: bool
  transmission :: "string option"
  createdAt :: nat
  updatedAt :: nat

text \<open>
  Modelled from the spec: the module \<^verbatim>\<open>models/User\<close> is not among the sources. The
  spec gives a user a unique username (a string) and a password hash (a string).
\<close>

record user =
  user_id :: oid
  username :: string
  password :: string

record store =
  users :: "user list"
  cars :: "car list"

text \<open>
  The session of one client: the user it is logged in as and the one-shot flash message.
\<close>

record session =
  userId :: "oid option"
  flash :: "string option"

definition empty_session :: session where
  "empty_session = \<lparr>userId = None, flash = None\<rparr>"

text \<open>
  A parsed request body, with the fields the handlers read. With the body parsers the
  program installs the body of a request is always an object, so \<^verbatim>\<open>req.body || {}\<close>
  is the body itself.
\<close>

record body =
  b_username :: jsval
  b_password :: jsval
  b_id :: jsval
  b_model :: jsval
  b_year :: jsval
  b_mpg :: jsval
  b_notes :: jsval
  b_fuel :: jsval
  b_isElectric :: jsval
  b_transmission :: jsval

definition empty_body :: body where
  "empty_body = \<lparr>b_username = JUndefined, b_password = JUndefined, b_id = JUndefined,
     b_model = JUndefined, b_year = JUndefined, b_mpg = JUndefined, b_notes = JUndefined,
     b_fuel = JUndefined, b_isElectric = JUndefined, b_transmission = JUndefined\<rparr>"

text \<open>
  What a request ends with. \<open>JsonMe\<close> carries the user as \<^verbatim>\<open>select("-password")\<close>
  leaves it: the id and the username. \<open>Unhandled\<close> is an exception or a rejected
  promise that no handler of the program catches.
\<close>

datatype response =
    Redirect string
  | RenderLogin "string option"
  | RenderDashboard "string option" user "car list"
  | JsonError nat string
  | JsonCars "car list"
  | JsonMe "(oid \<times> string) option" "car list"
  | NotFound
  | Unhandled

record outcome =
  db :: store
  sess :: session
  resp :: response

section \<open>Mongoose: casting, validation, queries\<close>

datatype mongoose_error = CastError | ValidationError

text \<open>
  Casting to a String path: null and undefined stay (\<open>None\<close>), a boolean and a number
  are converted by their \<^verbatim>\<open>toString\<close>.
\<close>

fun castString :: "lib \<Rightarrow> jsval \<Rightarrow> string option" where
  "castString L JUndefined = None"
| "castString L JNull = None"
| "castString L (JBool b) = Some (if b then ''true'' else ''false'')"
| "castString L (JNum n) = Some (NumberToString L n)"
| "castString L (JStr s) = Some s"

text \<open>Casting a number to a Number path fails on NaN only.\<close>

definition castNumber :: "jsnum \<Rightarrow> jsnum option" where
  "castNumber n = (if n = NaN then None else Some n)"

text \<open>The validators of \<^verbatim>\<open>carSchema\<close>.\<close>

definition allowedFuels :: "string list" where
  "allowedFuels = [''gasoline'', ''diesel'', ''electric'', ''hybrid'']"

definition allowedTransmissions :: "string list" where
  "allowedTransmissions = [''auto'', ''manual'']"

definition required_string :: "string option \<Rightarrow> bool" where
  "required_string v = (case v of None \<Rightarrow> False | Some s \<Rightarrow> s \<noteq> [])"

definition enum_ok :: "string list \<Rightarrow> string option \<Rightarrow> bool" where
  "enum_ok vs v = (case v of None \<Rightarrow> True | Some s \<Rightarrow> s \<in> set vs)"

text \<open>A path with a default takes it when the value given is undefined.\<close>

definition with_default :: "lib \<Rightarrow> string \<Rightarrow> jsval \<Rightarrow> string option" where
  "with_default L d v = (if v = JUndefined then Some d else castString L v)"

text \<open>The object a create handler hands to \<^verbatim>\<open>Car.create\<close>.\<close>

record car_payload =
  p_owner :: oid
  p_model :: jsval
  p_year :: jsnum
  p_mpg :: jsnum
  p_notes :: jsval
  p_fuel :: jsval
  p_isElectric :: bool
  p_transmission :: jsval

text \<open>A new document gets an ObjectId that no document of the store has.\<close>

definition fresh_oid :: "store \<Rightarrow> oid" where
  "fresh_oid st = Suc (fold max (map user_id (users st) @ map car_id (cars st)) 0)"

text \<open>
  \<^verbatim>\<open>Car.create(payload)\<close>: the values are cast to the types of their paths, defaults
  fill what is undefined, the validators run (required, min, enum), and the document is
  inserted with both time stamps set to the current time. A value that cannot be cast
  and a validator that fails both reject with a ValidationError.
\<close>

definition Car_create :: "lib \<Rightarrow> nat \<Rightarrow> store \<Rightarrow> car_payload \<Rightarrow> mongoose_error + store" where
  "Car_create L now st p =
     (let m = castString L (p_model p);
          n = with_default L [] (p_notes p);
          f = with_default L ''gasoline'' (p_fuel p);
          t = with_default L ''auto'' (p_transmission p)
      in if castNumber (p_year p) = None \<or> castNumber (p_mpg p) = None then Inl ValidationError
         else if \<not> required_string m then Inl ValidationError
         else if \<not> jsnum_ge (p_year p) (Finite 1885) then Inl ValidationError
         else if \<not> jsnum_ge (p_mpg p) (Finite 0) then Inl ValidationError
         else if \<not> enum_ok allowedFuels f then Inl ValidationError
         else if \<not> enum_ok allowedTransmissions t then Inl ValidationError
         else Inr (st\<lparr>cars := cars st @
                [\<lparr>car_id = fresh_oid st, owner = p_owner p, model = m, year = p_year p,
                  mpg = p_mpg p, car_notes = n, fuel = f, isElectric = p_isElectric p,
                  transmission = t, createdAt = now, updatedAt = now\<rparr>]\<rparr>))"

text \<open>\<^verbatim>\<open>Car.find({ owner: uid }).lean()\<close>: the user's documents, in the order of the store.\<close>

definition Car_find :: "store \<Rightarrow> oid \<Rightarrow> car list" where
  "Car_find st uid = filter (\<lambda>c. owner c = uid) (cars st)"

text \<open>
  \<^verbatim>\<open>.sort({ createdAt: -1 })\<close>: latest first. The database leaves the order of
  documents with the same time stamp open; here they keep the order they had.
\<close>

definition sort_createdAt_desc :: "car list \<Rightarrow> car list" where
  "sort_createdAt_desc cs = sort_key (\<lambda>c. - int (createdAt c)) cs"

text \<open>The \<^verbatim>\<open>$set\<close> object an update handler hands to \<^verbatim>\<open>Car.updateOne\<close>.\<close>

record car_update =
  u_model :: jsval
  u_year :: jsnum
  u_mpg :: jsnum
  u_notes :: jsval
  u_fuel :: jsval
  u_isElectric :: bool
  u_transmission :: jsval

text \<open>
  Casting a \<^verbatim>\<open>$set\<close> (Mongoose 6 and later): a key whose value is undefined is
  dropped, so the path keeps its value; every other value is cast to the type of its
  path. Validators do not run
  on an update (\<^verbatim>\<open>runValidators\<close> is not set). \<^verbatim>\<open>timestamps\<close> adds \<^verbatim>\<open>updatedAt\<close>.
\<close>

definition set_string :: "lib \<Rightarrow> jsval \<Rightarrow> string option \<Rightarrow> string option" where
  "set_string L v old = (if v = JUndefined then old else castString L v)"

definition apply_set :: "lib \<Rightarrow> nat \<Rightarrow> car_update \<Rightarrow> car \<Rightarrow> car" where
  "apply_set L now u c =
     c\<lparr>model := set_string L (u_model u) (model c),
       year := u_year u,
       mpg := u_mpg u,
       car_notes := set_string L (u_notes u) (car_notes c),
       fuel := set_string L (u_fuel u) (fuel c),
       isElectric := u_isElectric u,
       transmission := set_string L (u_transmission u) (transmission c),
       updatedAt := now\<rparr>"

fun update_first :: "('a \<Rightarrow> bool) \<Rightarrow> ('a \<Rightarrow> 'a) \<Rightarrow> 'a list \<Rightarrow> 'a list" where
  "update_first P f [] = []"
| "update_first P f (x # xs) = (if P x then f x # xs else x # update_first P f xs)"

fun remove_first :: "('a \<Rightarrow> bool) \<Rightarrow> 'a list \<Rightarrow> 'a list" where
  "remove_first P [] = []"
| "remove_first P (x # xs) = (if P x then xs else x # remove_first P xs)"

text \<open>
  \<^verbatim>\<open>Car.updateOne({ _id: id, owner: uid }, { $set: update })\<close>: the filter and the
  update are cast (a CastError rejects the call before the database is asked), then the
  first document that matches both the id and the owner is updated, if there is one.
\<close>

definition Car_updateOne ::
  "lib \<Rightarrow> nat \<Rightarrow> store \<Rightarrow> jsval \<Rightarrow> oid \<Rightarrow> car_update \<Rightarrow> mongoose_error + store" where
  "Car_updateOne L now st idv uid u =
     (case castObjectId L idv of
        None \<Rightarrow> Inl CastError
      | Some i \<Rightarrow>
          if castNumber (u_year u) = None \<or> castNumber (u_mpg u) = None then Inl CastError
          else Inr (st\<lparr>cars := update_first (\<lambda>c. car_id c = i \<and> owner c = uid)
                                  (apply_set L now u) (cars st)\<rparr>))"

text \<open>\<^verbatim>\<open>Car.deleteOne({ _id: id, owner: uid })\<close>\<close>

definition Car_deleteOne :: "lib \<Rightarrow> store \<Rightarrow> jsval \<Rightarrow> oid \<Rightarrow> mongoose_error + store" where
  "Car_deleteOne L st idv uid =
     (case castObjectId L idv of
        None \<Rightarrow> Inl CastError
      | Some i \<Rightarrow>
          Inr (st\<lparr>cars := remove_first (\<lambda>c. car_id c = i \<and> owner c = uid) (cars st)\<rparr>))"

text \<open>\<^verbatim>\<open>User.findOne({ username })\<close>, \<^verbatim>\<open>User.findById(id)\<close>, \<^verbatim>\<open>User.create\<close>\<close>

definition User_findOne :: "store \<Rightarrow> string \<Rightarrow> user option" where
  "User_findOne st name = find (\<lambda>u. username u = name) (users st)"

definition User_findById :: "store \<Rightarrow> oid \<Rightarrow> user option" where
  "User_findById st i = find (\<lambda>u. user_id u = i) (users st)"

definition User_create :: "store \<Rightarrow> string \<Rightarrow> string \<Rightarrow> user \<times> store" where
  "User_create st name hash =
     (let u = \<lparr>user_id = fresh_oid st, username = name, password = hash\<rparr>
      in (u, st\<lparr>users := users st @ [u]\<rparr>))"

section \<open>The request handlers\<close>

text \<open>
  Every handler takes the libraries, the current time where it writes a time stamp, the
  store and the session, and returns the store, the session and the response. Where a
  handler throws, the store and the session are returned as the handler left them.
\<close>

text \<open>
  \<^verbatim>\<open>requireAuth\<close>: without a user on the session the request is redirected to the
  entry page and the handler does not run.
\<close>

definition requireAuth :: "store \<Rightarrow> session \<Rightarrow> (oid \<Rightarrow> outcome) \<Rightarrow> outcome" where
  "requireAuth st s next =
     (case userId s of
        None \<Rightarrow> \<lparr>db = st, sess = s, resp = Redirect ''/''\<rparr>
      | Some uid \<Rightarrow> next uid)"

text \<open>
  \<^verbatim>\<open>ensureLoggedInOrDemo\<close>: without a user on the session, the account named demo is
  looked up, created when it is missing, and put on the session. The result is the
  store, the session and the user now on the session.
\<close>

definition ensureLoggedInOrDemo :: "lib \<Rightarrow> store \<Rightarrow> session \<Rightarrow> store \<times> session \<times> oid" where
  "ensureLoggedInOrDemo L st s =
     (case userId s of
        Some uid \<Rightarrow> (st, s, uid)
      | None \<Rightarrow>
          (case User_findOne st ''demo'' of
             Some demo \<Rightarrow> (st, s\<lparr>userId := Some (user_id demo)\<rparr>, user_id demo)
           | None \<Rightarrow>
               (let (demo, st') = User_create st ''demo'' (bcrypt_hash L ''demo'')
                in (st', s\<lparr>userId := Some (user_id demo)\<rparr>, user_id demo))))"

text \<open>\<^verbatim>\<open>GET /\<close>; \<open>fl\<close> is \<^verbatim>\<open>res.locals.flash\<close>.\<close>

definition get_root :: "string option \<Rightarrow> store \<Rightarrow> session \<Rightarrow> outcome" where
  "get_root fl st s =
     (if userId s \<noteq> None then \<lparr>db = st, sess = s, resp = Redirect ''/dashboard''\<rparr>
      else \<lparr>db = st, sess = s, resp = RenderLogin fl\<rparr>)"

text \<open>
  \<^verbatim>\<open>POST /login\<close>. The username of the query and of the new document is cast to a
  string (the path is a plain String, as the spec gives it); bcrypt throws on a password
  that is not a string.
\<close>

definition post_login :: "lib \<Rightarrow> store \<Rightarrow> session \<Rightarrow> body \<Rightarrow> outcome" where
  "post_login L st s b =
     (if \<not> truthy (b_username b) \<or> \<not> truthy (b_password b) then
        \<lparr>db = st, sess = s\<lparr>flash := Some ''Username and password required.''\<rparr>,
         resp = Redirect ''/''\<rparr>
      else
        (case castString L (b_username b) of
           None \<Rightarrow> \<lparr>db = st, sess = s, resp = Unhandled\<rparr>
         | Some name \<Rightarrow>
             (case User_findOne st name of
                None \<Rightarrow>
                  (case b_password b of
                     JStr pw \<Rightarrow>
                       (let (u, st') = User_create st name (bcrypt_hash L pw)
                        in \<lparr>db = st',
                            sess = s\<lparr>userId := Some (user_id u),
                                     flash := Some ''New account created and logged in.''\<rparr>,
                            resp = Redirect ''/dashboard''\<rparr>)
                   | _ \<Rightarrow> \<lparr>db = st, sess = s, resp = Unhandled\<rparr>)
              | Some existing \<Rightarrow>
                  (case b_password b of
                     JStr pw \<Rightarrow>
                       (if \<not> bcrypt_compare L pw (password existing) then
                          \<lparr>db = st, sess = s\<lparr>flash := Some ''Incorrect password.''\<rparr>,
                           resp = Redirect ''/''\<rparr>
                        else
                          \<lparr>db = st, sess = s\<lparr>userId := Some (user_id existing)\<rparr>,
                           resp = Redirect ''/dashboard''\<rparr>)
                   | _ \<Rightarrow> \<lparr>db = st, sess = s, resp = Unhandled\<rparr>))))"

text \<open>
  \<^verbatim>\<open>POST /logout\<close>: the session is destroyed; the client's next request starts from
  an empty session.
\<close>

definition post_logout :: "store \<Rightarrow> session \<Rightarrow> outcome" where
  "post_logout st s = \<lparr>db = st, sess = empty_session, resp = Redirect ''/''\<rparr>"

text \<open>
  \<^verbatim>\<open>GET /dashboard\<close>: reading \<^verbatim>\<open>user._id\<close> throws when the user of the session is
  not in the store.
\<close>

definition get_dashboard :: "string option \<Rightarrow> store \<Rightarrow> session \<Rightarrow> outcome" where
  "get_dashboard fl st s =
     requireAuth st s (\<lambda>uid.
       case User_findById st uid of
         None \<Rightarrow> \<lparr>db = st, sess = s, resp = Unhandled\<rparr>
       | Some u \<Rightarrow>
           \<lparr>db = st, sess = s,
            resp = RenderDashboard fl u (sort_createdAt_desc (Car_find st (user_id u)))\<rparr>)"

text \<open>
  \<^verbatim>\<open>b.isElectric === "on" || b.isElectric === true || b.isElectric === "true"\<close> of the
  form routes, and the two-way test of the JSON routes.
\<close>

definition isElectric_form :: "jsval \<Rightarrow> bool" where
  "isElectric_form v = (v = JStr ''on'' \<or> v = JBool True \<or> v = JStr ''true'')"

definition isElectric_json :: "jsval \<Rightarrow> bool" where
  "isElectric_json v = (v = JStr ''on'' \<or> v = JBool True)"

text \<open>\<^verbatim>\<open>POST /cars\<close>: nothing catches a rejected \<^verbatim>\<open>Car.create\<close>.\<close>

definition post_cars :: "lib \<Rightarrow> nat \<Rightarrow> store \<Rightarrow> session \<Rightarrow> body \<Rightarrow> outcome" where
  "post_cars L now st s b =
     requireAuth st s (\<lambda>uid.
       let payload = \<lparr>p_owner = uid,
                      p_model = b_model b,
                      p_year = Number L (b_year b),
                      p_mpg = Number L (b_mpg b),
                      p_notes = js_or (b_notes b) (JStr []),
                      p_fuel = js_or (b_fuel b) (JStr ''gasoline''),
                      p_isElectric = isElectric_form (b_isElectric b),
                      p_transmission = js_or (b_transmission b) (JStr ''auto'')\<rparr>
       in case Car_create L now st payload of
            Inl e \<Rightarrow> \<lparr>db = st, sess = s, resp = Unhandled\<rparr>
          | Inr st' \<Rightarrow> \<lparr>db = st', sess = s, resp = Redirect ''/dashboard''\<rparr>)"

text \<open>\<^verbatim>\<open>POST /cars/:id/update\<close>; \<open>pid\<close> is the \<^verbatim>\<open>id\<close> of the path, a string.\<close>

definition post_cars_update ::
  "lib \<Rightarrow> nat \<Rightarrow> store \<Rightarrow> session \<Rightarrow> string \<Rightarrow> body \<Rightarrow> outcome" where
  "post_cars_update L now st s pid b =
     requireAuth st s (\<lambda>uid.
       let update = \<lparr>u_model = b_model b,
                     u_year = Number L (b_year b),
                     u_mpg = Number L (b_mpg b),
                     u_notes = js_or (b_notes b) (JStr []),
                     u_fuel = js_or (b_fuel b) (JStr ''gasoline''),
                     u_isElectric = isElectric_form (b_isElectric b),
                     u_transmission = js_or (b_transmission b) (JStr ''auto'')\<rparr>
       in case Car_updateOne L now st (JStr pid) uid update of
            Inl e \<Rightarrow> \<lparr>db = st, sess = s, resp = Unhandled\<rparr>
          | Inr st' \<Rightarrow> \<lparr>db = st', sess = s, resp = Redirect ''/dashboard''\<rparr>)"

text \<open>\<^verbatim>\<open>POST /cars/:id/delete\<close>\<close>

definition post_cars_delete :: "lib \<Rightarrow> store \<Rightarrow> session \<Rightarrow> string \<Rightarrow> outcome" where
  "post_cars_delete L st s pid =
     requireAuth st s (\<lambda>uid.
       case Car_deleteOne L st (JStr pid) uid of
         Inl e \<Rightarrow> \<lparr>db = st, sess = s, resp = Unhandled\<rparr>
       | Inr st' \<Rightarrow> \<lparr>db = st', sess = s, resp = Redirect ''/dashboard''\<rparr>)"

text \<open>\<^verbatim>\<open>GET /api/me\<close>: the user without the password, and the cars as the store has them.\<close>

definition get_api_me :: "store \<Rightarrow> session \<Rightarrow> outcome" where
  "get_api_me st s =
     requireAuth st s (\<lambda>uid.
       \<lparr>db = st, sess = s,
        resp = JsonMe (map_option (\<lambda>u. (user_id u, username u)) (User_findById st uid))
                      (Car_find st uid)\<rparr>)"

text \<open>\<^verbatim>\<open>GET /data\<close>\<close>

definition get_data :: "lib \<Rightarrow> store \<Rightarrow> session \<Rightarrow> outcome" where
  "get_data L st s =
     (let (st1, s1, uid) = ensureLoggedInOrDemo L st s
      in \<lparr>db = st1, sess = s1, resp = JsonCars (Car_find st1 uid)\<rparr>)"

text \<open>
  \<^verbatim>\<open>POST /add\<close>: the four checks in the order of the source, then the payload (a
  \<^verbatim>\<open>trim\<close> on a value that is no string throws before the \<^verbatim>\<open>try\<close>), then
  \<^verbatim>\<open>Car.create\<close> inside the \<^verbatim>\<open>try\<close>.
\<close>

definition post_add :: "lib \<Rightarrow> nat \<Rightarrow> store \<Rightarrow> session \<Rightarrow> body \<Rightarrow> outcome" where
  "post_add L now st s b =
     (let (st1, s1, uid) = ensureLoggedInOrDemo L st s in
      if \<not> truthy (b_model b) \<or> \<not> truthy (b_year b) \<or> \<not> truthy (b_mpg b) then
        \<lparr>db = st1, sess = s1,
         resp = JsonError 400 ''Model, year, and MPG are required fields.''\<rparr>
      else if js_lt L (b_year b) (Finite 1885) then
        \<lparr>db = st1, sess = s1, resp = JsonError 400 ''Year must be 1885 or later.''\<rparr>
      else if \<not> js_includes allowedFuels (b_fuel b) then
        \<lparr>db = st1, sess = s1,
         resp = JsonError 400 (''Fuel must be one of: '' @ join_comma allowedFuels @ ''.'')\<rparr>
      else if \<not> js_includes allowedTransmissions (b_transmission b) then
        \<lparr>db = st1, sess = s1,
         resp = JsonError 400
           (''Transmission must be one of: '' @ join_comma allowedTransmissions @ ''.'')\<rparr>
      else
        (case (method_trim (b_model b), opt_trim_or_empty (b_notes b),
               method_trim (b_fuel b), method_trim (b_transmission b)) of
           (Some m, Some n, Some f, Some t) \<Rightarrow>
             (let payload = \<lparr>p_owner = uid,
                            p_model = JStr m,
                            p_year = Number L (b_year b),
                            p_mpg = Number L (b_mpg b),
                            p_notes = JStr n,
                            p_fuel = JStr f,
                            p_isElectric = isElectric_json (b_isElectric b),
                            p_transmission = JStr t\<rparr>
              in case Car_create L now st1 payload of
                   Inr st2 \<Rightarrow> \<lparr>db = st2, sess = s1, resp = Redirect ''/dashboard''\<rparr>
                 | Inl err \<Rightarrow> \<lparr>db = st1, sess = s1, resp = JsonError 500 ''Failed to add car.''\<rparr>)
         | _ \<Rightarrow> \<lparr>db = st1, sess = s1, resp = Unhandled\<rparr>))"

text \<open>\<^verbatim>\<open>POST /modify\<close>\<close>

definition post_modify :: "lib \<Rightarrow> nat \<Rightarrow> store \<Rightarrow> session \<Rightarrow> body \<Rightarrow> outcome" where
  "post_modify L now st s b =
     (let (st1, s1, uid) = ensureLoggedInOrDemo L st s in
      if \<not> truthy (b_id b) then \<lparr>db = st1, sess = s1, resp = JsonError 400 ''Missing id''\<rparr>
      else
        (let update = \<lparr>u_model = b_model b,
                       u_year = Number L (b_year b),
                       u_mpg = Number L (b_mpg b),
                       u_notes = b_notes b,
                       u_fuel = b_fuel b,
                       u_isElectric = isElectric_json (b_isElectric b),
                       u_transmission = b_transmission b\<rparr>
         in case Car_updateOne L now st1 (b_id b) uid update of
              Inl e \<Rightarrow> \<lparr>db = st1, sess = s1, resp = Unhandled\<rparr>
            | Inr st2 \<Rightarrow> \<lparr>db = st2, sess = s1, resp = JsonCars (Car_find st2 uid)\<rparr>))"

text \<open>\<^verbatim>\<open>POST /delete\<close>\<close>

definition post_delete :: "lib \<Rightarrow> store \<Rightarrow> session \<Rightarrow> body \<Rightarrow> outcome" where
  "post_delete L st s b =
     (let (st1, s1, uid) = ensureLoggedInOrDemo L st s in
      if \<not> truthy (b_id b) then \<lparr>db = st1, sess = s1, resp = JsonError 400 ''Missing id''\<rparr>
      else
        (case Car_deleteOne L st1 (b_id b) uid of
           Inl e \<Rightarrow> \<lparr>db = st1, sess = s1, resp = Unhandled\<rparr>
         | Inr st2 \<Rightarrow> \<lparr>db = st2, sess = s1, resp = JsonCars (Car_find st2 uid)\<rparr>))"

section \<open>The application\<close>

datatype request =
    GetRoot
  | PostLogin body
  | PostLogout
  | GetDashboard
  | PostCars body
  | PostCarsUpdate string body
  | PostCarsDelete string
  | GetApiMe
  | GetData
  | PostAdd body
  | PostModify body
  | PostDelete body
  | Other

text \<open>
  One request through the application: the flash middleware moves the flash message of
  the session to \<^verbatim>\<open>res.locals\<close>, then the route runs; a request that matches no route
  gets the 404 of the last middleware. Rate limiting and the static files are not
  modelled.
\<close>

definition handle :: "lib \<Rightarrow> nat \<Rightarrow> store \<Rightarrow> session \<Rightarrow> request \<Rightarrow> outcome" where
  "handle L now st s0 req =
     (let fl = flash s0; s = s0\<lparr>flash := None\<rparr>
      in case req of
           GetRoot \<Rightarrow> get_root fl st s
         | PostLogin b \<Rightarrow> post_login L st s b
         | PostLogout \<Rightarrow> post_logout st s
         | GetDashboard \<Rightarrow> get_dashboard fl st s
         | PostCars b \<Rightarrow> post_cars L now st s b
         | PostCarsUpdate pid b \<Rightarrow> post_cars_update L now st s pid b
         | PostCarsDelete pid \<Rightarrow> post_cars_delete L st s pid
         | GetApiMe \<Rightarrow> get_api_me st s
         | GetData \<Rightarrow> get_data L st s
         | PostAdd b \<Rightarrow> post_add L now st s b
         | PostModify b \<Rightarrow> post_modify L now st s b
         | PostDelete b \<Rightarrow> post_delete L st s b
         | Other \<Rightarrow> \<lparr>db = st, sess = s, resp = NotFound\<rparr>)"

text \<open>A client's requests one after the other, each with the time it arrives at.\<close>

fun run :: "lib \<Rightarrow> store \<Rightarrow> session \<Rightarrow> (nat \<times> request) list \<Rightarrow> store \<times> session" where
  "run L st s [] = (st, s)"
| "run L st s ((now, r) # rs) =
     (let out = handle L now st s r in run L (db out) (sess out) rs)"

text \<open>
  The routes behind \<^verbatim>\<open>requireAuth\<close>, and the requests that can put a user on the
  session: the login and the routes behind \<^verbatim>\<open>ensureLoggedInOrDemo\<close>.
\<close>

fun strict_route :: "request \<Rightarrow> bool" where
  "strict_route GetDashboard = True"
| "strict_route (PostCars b) = True"
| "strict_route (PostCarsUpdate pid b) = True"
| "strict_route (PostCarsDelete pid) = True"
| "strict_route GetApiMe = True"
| "strict_route _ = False"

fun establishes :: "request \<Rightarrow> bool" where
  "establishes (PostLogin b) = True"
| "establishes GetData = True"
| "establishes (PostAdd b) = True"
| "establishes (PostModify b) = True"
| "establishes (PostDelete b) = True"
| "establishes _ = False"

text \<open>The id and the owner of every car of the store, in the order of the store.\<close>

definition ids_owners :: "store \<Rightarrow> (oid \<times> oid) list" where
  "ids_owners st = map (\<lambda>c. (car_id c, owner c)) (cars st)"

section \<open>Sample data\<close>

text \<open>
  The theorems below hold for every choice of the library functions. To run the model
  on concrete requests one choice is fixed here: ObjectIds are written in decimal, a
  string of decimal digits converts to the number it writes, the empty string to 0 and
  any other string to NaN, and the stand-in for bcrypt prefixes the password.
  \<open>NumberToString\<close> plays no part in the examples and is a constant function.
\<close>

definition is_digit :: "char \<Rightarrow> bool" where
  "is_digit c = (48 \<le> (of_char c :: nat) \<and> (of_char c :: nat) \<le> 57)"

definition decimal :: "string \<Rightarrow> nat option" where
  "decimal s = (if s \<noteq> [] \<and> list_all is_digit s
                then Some (foldl (\<lambda>n c. 10 * n + (of_char c - 48)) 0 s) else None)"

definition sample_lib :: lib where
  "sample_lib =
     \<lparr>StringToNumber = (\<lambda>s. if trim s = [] then Finite 0
                             else case decimal (trim s) of
                                    Some n \<Rightarrow> Finite (of_nat n) | None \<Rightarrow> NaN),
      NumberToString = (\<lambda>n. ''NaN''),
      castObjectId = (\<lambda>v. case v of JStr s \<Rightarrow> decimal s | _ \<Rightarrow> None),
      bcrypt_hash = (\<lambda>p. ''$2b$10$'' @ p),
      bcrypt_compare = (\<lambda>p h. h = ''$2b$10$'' @ p)\<rparr>"

definition alice :: user where
  "alice = \<lparr>user_id = 1, username = ''alice'', password = ''$2b$10$wonderland''\<rparr>"

definition bob :: user where
  "bob = \<lparr>user_id = 2, username = ''bob'', password = ''$2b$10$builder''\<rparr>"

definition bobs_car :: car where
  "bobs_car = \<lparr>car_id = 3, owner = 2, model = Some ''Golf'', year = Finite 2015,
      mpg = Finite 40, car_notes = Some [], fuel = Some ''diesel'', isElectric = False,
      transmission = Some ''manual'', createdAt = 10, updatedAt = 10\<rparr>"

definition store0 :: store where
  "store0 = \<lparr>users = [alice, bob], cars = [bobs_car]\<rparr>"

definition as_alice :: session where
  "as_alice = \<lparr>userId = Some 1, flash = None\<rparr>"

definition as_bob :: session where
  "as_bob = \<lparr>userId = Some 2, flash = None\<rparr>"

text \<open>A body with the two fields of the login form.\<close>

definition credentials :: "body \<Rightarrow> string \<Rightarrow> string \<Rightarrow> body" where
  "credentials b u p = b\<lparr>b_username := JStr u, b_password := JStr p\<rparr>"

text \<open>The payload of the spec's first scenario, and a second car.\<close>

definition civic :: body where
  "civic = empty_body\<lparr>b_model := JStr ''Civic'', b_year := JNum (Finite 2020),
     b_mpg := JNum (Finite 35), b_fuel := JStr ''gasoline'', b_transmission := JStr ''auto''\<rparr>"

definition leaf :: body where
  "leaf = civic\<lparr>b_model := JStr ''Leaf'', b_year := JNum (Finite 2022),
     b_fuel := JStr ''electric'', b_isElectric := JBool True\<rparr>"

section \<open>Unfolding the model\<close>

lemmas js_defs = js_or_def Number_def js_lt_def is_ws_def trim_def js_includes_def

lemmas mongoose_defs = castNumber_def allowedFuels_def allowedTransmissions_def
  required_string_def enum_ok_def with_default_def fresh_oid_def Car_create_def Car_find_def
  sort_createdAt_desc_def set_string_def apply_set_def Car_updateOne_def Car_deleteOne_def
  User_findOne_def User_findById_def User_create_def

lemmas handler_defs = requireAuth_def ensureLoggedInOrDemo_def get_root_def post_login_def
  post_logout_def get_dashboard_def isElectric_form_def isElectric_json_def post_cars_def
  post_cars_update_def post_cars_delete_def get_api_me_def get_data_def post_add_def
  post_modify_def post_delete_def handle_def empty_session_def empty_body_def

lemmas sample_defs = is_digit_def decimal_def sample_lib_def alice_def bob_def bobs_car_def
  store0_def as_alice_def as_bob_def civic_def leaf_def credentials_def

section \<open>Lemmas on the queries\<close>

lemma update_first_none: "\<forall>x\<in>set xs. \<not> P x \<Longrightarrow> update_first P f xs = xs"
  by (induction xs) auto

lemma remove_first_none: "\<forall>x\<in>set xs. \<not> P x \<Longrightarrow> remove_first P xs = xs"
  by (induction xs) auto

lemma update_first_map:
  "(\<And>x. g (f x) = g x) \<Longrightarrow> map g (update_first P f xs) = map g xs"
  by (induction xs) auto

lemma apply_set_ident:
  "car_id (apply_set L now u c) = car_id c" "owner (apply_set L now u c) = owner c"
  by (simp_all add: apply_set_def)

lemma ensure_cars: "cars (fst (ensureLoggedInOrDemo L st s)) = cars st"
  by (simp add: ensureLoggedInOrDemo_def User_create_def Let_def split: option.splits)

lemma ensure_logged_in: "userId s = Some A \<Longrightarrow> ensureLoggedInOrDemo L st s = (st, s, A)"
  by (simp add: ensureLoggedInOrDemo_def)

lemma updateOne_ident:
  "Car_updateOne L now st v uid u = Inr st' \<Longrightarrow>
   map (\<lambda>c. (car_id c, owner c)) (cars st') = map (\<lambda>c. (car_id c, owner c)) (cars st)"
  by (auto simp: Car_updateOne_def apply_set_ident update_first_map
           split: option.splits if_splits)

lemma post_modify_ident:
  "map (\<lambda>c. (car_id c, owner c)) (cars (db (post_modify L now st s b))) =
   map (\<lambda>c. (car_id c, owner c)) (cars st)"
proof -
  obtain st1 s1 uid where e: "ensureLoggedInOrDemo L st s = (st1, s1, uid)"
    by (cases "ensureLoggedInOrDemo L st s") auto
  have c1: "cars st1 = cars st" using ensure_cars [of L st s] e by simp
  show ?thesis
    using c1 by (auto simp: post_modify_def e split: sum.splits dest: updateOne_ident)
qed

lemma post_cars_update_ident:
  "map (\<lambda>c. (car_id c, owner c)) (cars (db (post_cars_update L now st s pid b))) =
   map (\<lambda>c. (car_id c, owner c)) (cars st)"
  by (auto simp: post_cars_update_def requireAuth_def Let_def
           split: option.splits sum.splits dest: updateOne_ident)

lemma no_match:
  assumes "c \<in> set cs" "owner c \<noteq> A" "distinct (map car_id cs)"
  shows "\<forall>x\<in>set cs. \<not> (car_id x = car_id c \<and> owner x = A)"
proof
  fix x assume x: "x \<in> set cs"
  from assms(3) have "inj_on car_id (set cs)" by (simp add: distinct_map)
  with x assms(1) have "car_id x = car_id c \<Longrightarrow> x = c" by (auto dest: inj_onD)
  with assms(2) show "\<not> (car_id x = car_id c \<and> owner x = A)" by auto
qed

lemma no_match_absent:
  assumes "j \<notin> car_id ` set cs"
  shows "\<forall>x\<in>set cs. \<not> (car_id x = j \<and> owner x = A)"
  using assms by auto

lemma updateOne_miss:
  assumes "castObjectId L v = Some i"
    and "\<forall>x\<in>set (cars st). \<not> (car_id x = i \<and> owner x = A)"
  shows "Car_updateOne L now st v A u =
         (if castNumber (u_year u) = None \<or> castNumber (u_mpg u) = None
          then Inl CastError else Inr st)"
  using assms by (simp add: Car_updateOne_def update_first_none)

lemma deleteOne_miss:
  assumes "castObjectId L v = Some i"
    and "\<forall>x\<in>set (cars st). \<not> (car_id x = i \<and> owner x = A)"
  shows "Car_deleteOne L st v A = Inr st"
  using assms by (simp add: Car_deleteOne_def remove_first_none)

lemma ensure_session:
  "ensureLoggedInOrDemo L st s = (st1, s1, uid) \<Longrightarrow> userId s1 = Some uid"
  by (auto simp: ensureLoggedInOrDemo_def User_create_def Let_def split: option.splits)

lemma find_None_filter: "find P xs = None \<Longrightarrow> filter P xs = []"
  by (induction xs) (auto split: if_splits)

lemma find_append_new: "find P xs = None \<Longrightarrow> P x \<Longrightarrow> find P (xs @ [x]) = Some x"
  by (induction xs) (auto split: if_splits)

lemma findOne_append_new:
  "User_findOne st name = None \<Longrightarrow>
   User_findOne (st\<lparr>users := users st @ [\<lparr>user_id = i, username = name, password = h\<rparr>]\<rparr>) name
     = Some \<lparr>user_id = i, username = name, password = h\<rparr>"
  by (simp add: User_findOne_def find_append_new)

lemma trim_allowedFuels: "f \<in> set allowedFuels \<Longrightarrow> trim f = f"
  by (auto simp: allowedFuels_def trim_def is_ws_def)

lemma trim_allowedTransmissions: "t \<in> set allowedTransmissions \<Longrightarrow> trim t = t"
  by (auto simp: allowedTransmissions_def trim_def is_ws_def)

lemma fuel_cases:
  "js_includes allowedFuels v \<Longrightarrow> \<exists>f. v = JStr f \<and> f \<in> set allowedFuels \<and> trim f = f"
  using trim_allowedFuels by (force simp: js_includes_def)

lemma transmission_cases:
  "js_includes allowedTransmissions v \<Longrightarrow>
   \<exists>t. v = JStr t \<and> t \<in> set allowedTransmissions \<and> trim t = t"
  using trim_allowedTransmissions by (force simp: js_includes_def)

lemma jsnum_ge_not_NaN: "jsnum_ge a b \<Longrightarrow> a \<noteq> NaN"
  by (cases a) auto

lemma jsnum_ge_not_lt: "jsnum_ge a b \<Longrightarrow> \<not> jsnum_lt a b"
  by (cases a; cases b) auto

lemma method_trim_truthy: "method_trim v = Some m \<Longrightarrow> m \<noteq> [] \<Longrightarrow> truthy v"
  by (cases v) (auto simp: trim_def)

section \<open>Ownership\<close>

text \<open>
  C10: no update changes the owner of a car. After \<^verbatim>\<open>POST /modify\<close> and after
  \<^verbatim>\<open>POST /cars/:id/update\<close>, whatever the body, the session and the id, the store
  holds the same cars under the same owners as before: the list of the pairs of id and
  owner is unchanged.
\<close>

theorem update_keeps_owner:
  "ids_owners (db (handle L now st s (PostModify b))) = ids_owners st \<and>
   ids_owners (db (handle L now st s (PostCarsUpdate pid b))) = ids_owners st"
  by (simp add: handle_def ids_owners_def post_modify_ident post_cars_update_ident)

text \<open>
  C1: ownership isolation. User \<open>A\<close> is on the session; the car \<open>c\<close> of the store belongs
  to somebody else; ids are unique in the store; \<open>p\<close> writes the id of \<open>c\<close> and \<open>p'\<close>
  writes an id that no car of the store has. Then each of the four update and delete
  routes answers the request that names \<open>p\<close> exactly as it answers the same request
  naming \<open>p'\<close> (the same response, session and store), and the store after it is the
  store before it.
\<close>

theorem ownership_isolation:
  assumes A: "userId s = Some A"
    and c: "c \<in> set (cars st)" "owner c \<noteq> A"
    and d: "distinct (map car_id (cars st))"
    and p: "p \<noteq> []" "castObjectId L (JStr p) = Some (car_id c)"
    and p': "p' \<noteq> []" "castObjectId L (JStr p') = Some j" "j \<notin> car_id ` set (cars st)"
  shows "handle L now st s (PostModify (b\<lparr>b_id := JStr p\<rparr>)) =
           handle L now st s (PostModify (b\<lparr>b_id := JStr p'\<rparr>))
       \<and> db (handle L now st s (PostModify (b\<lparr>b_id := JStr p\<rparr>))) = st
       \<and> handle L now st s (PostDelete (b\<lparr>b_id := JStr p\<rparr>)) =
           handle L now st s (PostDelete (b\<lparr>b_id := JStr p'\<rparr>))
       \<and> db (handle L now st s (PostDelete (b\<lparr>b_id := JStr p\<rparr>))) = st
       \<and> handle L now st s (PostCarsUpdate p b) = handle L now st s (PostCarsUpdate p' b)
       \<and> db (handle L now st s (PostCarsUpdate p b)) = st
       \<and> handle L now st s (PostCarsDelete p) = handle L now st s (PostCarsDelete p')
       \<and> db (handle L now st s (PostCarsDelete p)) = st"
proof -
  let ?s = "s\<lparr>flash := None\<rparr>"
  have e: "ensureLoggedInOrDemo L st ?s = (st, ?s, A)"
    using A by (simp add: ensure_logged_in)
  have m: "\<forall>x\<in>set (cars st). \<not> (car_id x = car_id c \<and> owner x = A)"
    using c d by (rule no_match)
  have m': "\<forall>x\<in>set (cars st). \<not> (car_id x = j \<and> owner x = A)"
    using p'(3) by (rule no_match_absent)
  note u = updateOne_miss [OF p(2) m] updateOne_miss [OF p'(2) m']
  note dl = deleteOne_miss [OF p(2) m] deleteOne_miss [OF p'(2) m']
  have 1: "handle L now st s (PostModify (b\<lparr>b_id := JStr p\<rparr>)) =
           handle L now st s (PostModify (b\<lparr>b_id := JStr p'\<rparr>))"
    using p(1) p'(1) by (simp add: handle_def post_modify_def e u)
  have 2: "db (handle L now st s (PostModify (b\<lparr>b_id := JStr p\<rparr>))) = st"
    using p(1) by (simp add: handle_def post_modify_def e u)
  have 3: "handle L now st s (PostDelete (b\<lparr>b_id := JStr p\<rparr>)) =
           handle L now st s (PostDelete (b\<lparr>b_id := JStr p'\<rparr>))"
    using p(1) p'(1) by (simp add: handle_def post_delete_def e dl)
  have 4: "db (handle L now st s (PostDelete (b\<lparr>b_id := JStr p\<rparr>))) = st"
    using p(1) by (simp add: handle_def post_delete_def e dl)
  have 5: "handle L now st s (PostCarsUpdate p b) = handle L now st s (PostCarsUpdate p' b)"
    using A by (simp add: handle_def post_cars_update_def requireAuth_def u)
  have 6: "db (handle L now st s (PostCarsUpdate p b)) = st"
    using A by (simp add: handle_def post_cars_update_def requireAuth_def u)
  have 7: "handle L now st s (PostCarsDelete p) = handle L now st s (PostCarsDelete p')"
    using A by (simp add: handle_def post_cars_delete_def requireAuth_def dl)
  have 8: "db (handle L now st s (PostCarsDelete p)) = st"
    using A by (simp add: handle_def post_cars_delete_def requireAuth_def dl)
  from 1 2 3 4 5 6 7 8 show ?thesis by blast
qed

text \<open>
  Alice names the car of Bob (id 3) and an id that nothing has (9): the same outcome,
  and the store as it was.
\<close>

theorem ownership_isolation_witness:
  "handle sample_lib 20 store0 as_alice (PostModify (civic\<lparr>b_id := JStr ''3''\<rparr>)) =
     handle sample_lib 20 store0 as_alice (PostModify (civic\<lparr>b_id := JStr ''9''\<rparr>))
   \<and> db (handle sample_lib 20 store0 as_alice (PostModify (civic\<lparr>b_id := JStr ''3''\<rparr>))) =
     store0
   \<and> handle sample_lib 20 store0 as_alice (PostCarsDelete ''3'') =
     handle sample_lib 20 store0 as_alice (PostCarsDelete ''9'')"
proof -
  have 1: "userId as_alice = Some 1" by (simp add: as_alice_def)
  have 2: "bobs_car \<in> set (cars store0)" by (simp add: store0_def)
  have 3: "owner bobs_car \<noteq> 1" by (simp add: bobs_car_def)
  have 4: "distinct (map car_id (cars store0))" by (simp add: store0_def)
  have 5: "''3'' \<noteq> []" "''9'' \<noteq> []" by simp_all
  have 6: "castObjectId sample_lib (JStr ''3'') = Some (car_id bobs_car)"
    by (simp add: sample_lib_def decimal_def is_digit_def bobs_car_def)
  have 7: "castObjectId sample_lib (JStr ''9'') = Some 9"
    by (simp add: sample_lib_def decimal_def is_digit_def)
  have 8: "9 \<notin> car_id ` set (cars store0)" by (simp add: store0_def bobs_car_def)
  show ?thesis
    using ownership_isolation [OF 1 2 3 4 5(1) 6 5(2) 7 8, of 20 civic] by blast
qed

section \<open>Login\<close>

text \<open>
  C3: the first login with a username registers it, the next one with the same password
  logs in, a wrong password changes nothing. For a username \<open>u\<close> and a password \<open>p\<close>,
  both non-empty, and a store with no account named \<open>u\<close>: \<^verbatim>\<open>POST /login\<close> appends one
  account to the store, puts it on the session and redirects to the dashboard, and the
  store then has exactly one account named \<open>u\<close>. On that store, a login with \<open>u\<close> and
  \<open>p\<close>, when bcrypt accepts \<open>p\<close> for the hash it made of \<open>p\<close>, leaves the store as it
  is, puts the same account on the session and redirects to the dashboard; a login with
  \<open>u\<close> and a non-empty password that bcrypt does not accept leaves the store as it is,
  leaves the user of the session as it was, sets the flash message and redirects to the
  entry page.
\<close>

theorem login_register_then_login:
  assumes u: "u \<noteq> []" and p: "p \<noteq> []" and new: "User_findOne st u = None"
  shows "let acct = \<lparr>user_id = fresh_oid st, username = u, password = bcrypt_hash L p\<rparr>;
             st1 = st\<lparr>users := users st @ [acct]\<rparr>
         in handle L now st s (PostLogin (credentials b u p)) =
              \<lparr>db = st1,
               sess = s\<lparr>userId := Some (fresh_oid st),
                        flash := Some ''New account created and logged in.''\<rparr>,
               resp = Redirect ''/dashboard''\<rparr>
          \<and> filter (\<lambda>x. username x = u) (users st1) = [acct]
          \<and> (bcrypt_compare L p (bcrypt_hash L p) \<longrightarrow>
               handle L now' st1 s' (PostLogin (credentials b' u p)) =
                 \<lparr>db = st1, sess = s'\<lparr>userId := Some (fresh_oid st), flash := None\<rparr>,
                  resp = Redirect ''/dashboard''\<rparr>)
          \<and> (p' \<noteq> [] \<and> \<not> bcrypt_compare L p' (bcrypt_hash L p) \<longrightarrow>
               handle L now' st1 s' (PostLogin (credentials b' u p')) =
                 \<lparr>db = st1, sess = s'\<lparr>flash := Some ''Incorrect password.''\<rparr>,
                  resp = Redirect ''/''\<rparr>)"
proof -
  let ?acct = "\<lparr>user_id = fresh_oid st, username = u, password = bcrypt_hash L p\<rparr>"
  let ?st1 = "st\<lparr>users := users st @ [?acct]\<rparr>"
  have f: "User_findOne ?st1 u = Some ?acct"
    using new by (rule findOne_append_new)
  have 1: "handle L now st s (PostLogin (credentials b u p)) =
              \<lparr>db = ?st1,
               sess = s\<lparr>userId := Some (fresh_oid st),
                        flash := Some ''New account created and logged in.''\<rparr>,
               resp = Redirect ''/dashboard''\<rparr>"
    using u p new by (simp add: handle_def post_login_def credentials_def User_create_def Let_def)
  have 2: "filter (\<lambda>x. username x = u) (users ?st1) = [?acct]"
    using new by (simp add: User_findOne_def find_None_filter)
  have 3: "bcrypt_compare L p (bcrypt_hash L p) \<Longrightarrow>
               handle L now' ?st1 s' (PostLogin (credentials b' u p)) =
                 \<lparr>db = ?st1, sess = s'\<lparr>userId := Some (fresh_oid st), flash := None\<rparr>,
                  resp = Redirect ''/dashboard''\<rparr>"
    using u p by (simp add: handle_def post_login_def credentials_def f)
  have 4: "p' \<noteq> [] \<Longrightarrow> \<not> bcrypt_compare L p' (bcrypt_hash L p) \<Longrightarrow>
               handle L now' ?st1 s' (PostLogin (credentials b' u p')) =
                 \<lparr>db = ?st1, sess = s'\<lparr>flash := Some ''Incorrect password.''\<rparr>,
                  resp = Redirect ''/''\<rparr>"
    using u by (simp add: handle_def post_login_def credentials_def f)
  from 1 2 3 4 show ?thesis by (simp only: Let_def) blast
qed

text \<open>Carol registers, logs in again, and mistypes her password.\<close>

theorem login_witness:
  "handle sample_lib 1 store0 empty_session (PostLogin (credentials empty_body ''carol'' ''pw'')) =
     \<lparr>db = store0\<lparr>users := users store0 @
             [\<lparr>user_id = 4, username = ''carol'', password = ''$2b$10$pw''\<rparr>]\<rparr>,
      sess = \<lparr>userId = Some 4, flash = Some ''New account created and logged in.''\<rparr>,
      resp = Redirect ''/dashboard''\<rparr>
   \<and> handle sample_lib 2
       (store0\<lparr>users := users store0 @
             [\<lparr>user_id = 4, username = ''carol'', password = ''$2b$10$pw''\<rparr>]\<rparr>)
       empty_session (PostLogin (credentials empty_body ''carol'' ''pw'')) =
     \<lparr>db = store0\<lparr>users := users store0 @
             [\<lparr>user_id = 4, username = ''carol'', password = ''$2b$10$pw''\<rparr>]\<rparr>,
      sess = \<lparr>userId = Some 4, flash = None\<rparr>,
      resp = Redirect ''/dashboard''\<rparr>
   \<and> handle sample_lib 2
       (store0\<lparr>users := users store0 @
             [\<lparr>user_id = 4, username = ''carol'', password = ''$2b$10$pw''\<rparr>]\<rparr>)
       empty_session (PostLogin (credentials empty_body ''carol'' ''guess'')) =
     \<lparr>db = store0\<lparr>users := users store0 @
             [\<lparr>user_id = 4, username = ''carol'', password = ''$2b$10$pw''\<rparr>]\<rparr>,
      sess = \<lparr>userId = None, flash = Some ''Incorrect password.''\<rparr>,
      resp = Redirect ''/''\<rparr>"
proof -
  have 1: "''carol'' \<noteq> []" "''pw'' \<noteq> []" "''guess'' \<noteq> []" by simp_all
  have 2: "User_findOne store0 ''carol'' = None"
    by (simp add: User_findOne_def store0_def alice_def bob_def)
  have 3: "fresh_oid store0 = 4"
    by (simp add: fresh_oid_def store0_def alice_def bob_def bobs_car_def)
  have 4: "bcrypt_hash sample_lib ''pw'' = ''$2b$10$pw''" by (simp add: sample_lib_def)
  have 5: "bcrypt_compare sample_lib ''pw'' ''$2b$10$pw''"
          "\<not> bcrypt_compare sample_lib ''guess'' ''$2b$10$pw''"
    by (simp_all add: sample_lib_def)
  show ?thesis
    using login_register_then_login [OF 1(1) 1(2) 2, of sample_lib 1 empty_session empty_body
        2 empty_session empty_body "''guess''"] 1(3) 5
    by (simp add: Let_def 3 4 empty_session_def)
qed

section \<open>Logout\<close>

lemma step_keeps_logged_out:
  "userId s = None \<Longrightarrow> \<not> establishes r \<Longrightarrow> userId (sess (handle L now st s r)) = None"
  by (cases r)
     (simp_all add: handle_def get_root_def post_logout_def empty_session_def
        get_dashboard_def post_cars_def post_cars_update_def post_cars_delete_def
        get_api_me_def requireAuth_def)

lemma run_keeps_logged_out:
  "userId s = None \<Longrightarrow> list_all (\<lambda>x. \<not> establishes (snd x)) rs \<Longrightarrow>
   userId (snd (run L st s rs)) = None"
proof (induction rs arbitrary: st s)
  case Nil
  then show ?case by simp
next
  case (Cons x rs)
  obtain t r where x: "x = (t, r)" by (cases x)
  from Cons.prems have "userId (sess (handle L t st s r)) = None"
    by (simp add: x step_keeps_logged_out)
  with Cons show ?case by (simp add: x Let_def)
qed

lemma strict_logged_out:
  "userId s = None \<Longrightarrow> strict_route r \<Longrightarrow> resp (handle L now st s r) = Redirect ''/''"
  by (cases r)
     (simp_all add: handle_def get_dashboard_def post_cars_def post_cars_update_def
        post_cars_delete_def get_api_me_def requireAuth_def)

text \<open>
  C9, as the code has it: \<^verbatim>\<open>POST /logout\<close> answers every session, also one with no
  user, with a redirect to the entry page and leaves an empty session; and after a
  logout, as long as the client sends neither a login nor a request to a route behind
  \<^verbatim>\<open>ensureLoggedInOrDemo\<close> (\<^verbatim>\<open>/data\<close>, \<^verbatim>\<open>/add\<close>, \<^verbatim>\<open>/modify\<close>, \<^verbatim>\<open>/delete\<close>), every request
  to a route behind \<^verbatim>\<open>requireAuth\<close> is redirected to the entry page.
\<close>

theorem logout_then_strict:
  assumes "list_all (\<lambda>x. \<not> establishes (snd x)) rs" and "strict_route r"
  shows "handle L now st s PostLogout = \<lparr>db = st, sess = empty_session, resp = Redirect ''/''\<rparr>
       \<and> resp (handle L now' (fst (run L st s ((now, PostLogout) # rs)))
                 (snd (run L st s ((now, PostLogout) # rs))) r) = Redirect ''/''"
proof -
  have out: "handle L now st s PostLogout =
             \<lparr>db = st, sess = empty_session, resp = Redirect ''/''\<rparr>"
    by (simp add: handle_def post_logout_def)
  have "userId (snd (run L st empty_session rs)) = None"
    using assms(1) by (simp add: run_keeps_logged_out empty_session_def)
  then have "resp (handle L now' (fst (run L st empty_session rs))
                 (snd (run L st empty_session rs)) r) = Redirect ''/''"
    using assms(2) by (rule strict_logged_out)
  with out show ?thesis by simp
qed

theorem logout_then_strict_witness:
  "resp (handle sample_lib 4
     (fst (run sample_lib store0 as_alice [(2, PostLogout), (3, GetRoot)]))
     (snd (run sample_lib store0 as_alice [(2, PostLogout), (3, GetRoot)])) GetDashboard)
   = Redirect ''/''"
proof -
  have 1: "list_all (\<lambda>x. \<not> establishes (snd x)) [(3::nat, GetRoot)]" by simp
  have 2: "strict_route GetDashboard" by simp
  show ?thesis
    using logout_then_strict [OF 1 2, of sample_lib 2 store0 as_alice 4] by blast
qed

text \<open>
  Without the restriction the claim fails: after her logout Alice asks for \<^verbatim>\<open>/data\<close>,
  which puts the demo account on her session, and \<^verbatim>\<open>/dashboard\<close> then renders the
  dashboard of demo instead of redirecting. She has not logged in again.
\<close>

theorem logout_then_demo_counterexample:
  "resp (handle sample_lib 4
     (fst (run sample_lib store0 as_alice [(2, PostLogout), (3, GetData)]))
     (snd (run sample_lib store0 as_alice [(2, PostLogout), (3, GetData)])) GetDashboard)
   = RenderDashboard None \<lparr>user_id = 4, username = ''demo'', password = ''$2b$10$demo''\<rparr> []"
  by (simp add: handle_def post_logout_def get_data_def ensureLoggedInOrDemo_def
      User_findOne_def User_create_def fresh_oid_def store0_def alice_def bob_def bobs_car_def
      as_alice_def empty_session_def sample_lib_def get_dashboard_def requireAuth_def
      User_findById_def Car_find_def sort_createdAt_desc_def Let_def)

section \<open>Creating a car through \<^verbatim>\<open>POST /add\<close>\<close>

text \<open>
  The payloads \<^verbatim>\<open>POST /add\<close> accepts: model a string that is not empty after trimming,
  year truthy and at least 1885, mpg truthy and at least 0, fuel and transmission among
  the allowed values, notes absent, null or a string. The car is appended to the store
  with these fields, and the response is the redirect to the dashboard.
\<close>

lemma post_add_success:
  assumes e: "ensureLoggedInOrDemo L st s = (st1, s1, uid)"
    and m: "method_trim (b_model b) = Some m" "m \<noteq> []"
    and y: "truthy (b_year b)" "jsnum_ge (Number L (b_year b)) (Finite 1885)"
    and g: "truthy (b_mpg b)" "jsnum_ge (Number L (b_mpg b)) (Finite 0)"
    and f: "js_includes allowedFuels (b_fuel b)"
    and t: "js_includes allowedTransmissions (b_transmission b)"
    and n: "opt_trim_or_empty (b_notes b) = Some n"
  shows "post_add L now st s b =
     \<lparr>db = st1\<lparr>cars := cars st1 @
         [\<lparr>car_id = fresh_oid st1, owner = uid, model = Some m,
           year = Number L (b_year b), mpg = Number L (b_mpg b), car_notes = Some n,
           fuel = castString L (b_fuel b), isElectric = isElectric_json (b_isElectric b),
           transmission = castString L (b_transmission b), createdAt = now, updatedAt = now\<rparr>]\<rparr>,
      sess = s1, resp = Redirect ''/dashboard''\<rparr>"
proof -
  obtain fu where fu: "b_fuel b = JStr fu" "fu \<in> set allowedFuels" "trim fu = fu"
    using fuel_cases [OF f] by blast
  obtain tr where tr: "b_transmission b = JStr tr" "tr \<in> set allowedTransmissions" "trim tr = tr"
    using transmission_cases [OF t] by blast
  have tm: "truthy (b_model b)" using m by (rule method_trim_truthy)
  have lt: "\<not> js_lt L (b_year b) (Finite 1885)"
    using y(2) by (simp add: js_lt_def Number_def jsnum_ge_not_lt)
  have cn: "castNumber (Number L (b_year b)) \<noteq> None" "castNumber (Number L (b_mpg b)) \<noteq> None"
    using y(2) g(2) by (auto simp: castNumber_def dest: jsnum_ge_not_NaN)
  have cr: "Car_create L now st1
      \<lparr>p_owner = uid, p_model = JStr m, p_year = Number L (b_year b),
       p_mpg = Number L (b_mpg b), p_notes = JStr n, p_fuel = JStr fu,
       p_isElectric = isElectric_json (b_isElectric b), p_transmission = JStr tr\<rparr> =
     Inr (st1\<lparr>cars := cars st1 @
         [\<lparr>car_id = fresh_oid st1, owner = uid, model = Some m,
           year = Number L (b_year b), mpg = Number L (b_mpg b), car_notes = Some n,
           fuel = Some fu, isElectric = isElectric_json (b_isElectric b),
           transmission = Some tr, createdAt = now, updatedAt = now\<rparr>]\<rparr>)"
    using m(2) y(2) g(2) cn fu(2) tr(2)
    by (simp add: Car_create_def Let_def with_default_def required_string_def enum_ok_def)
  show ?thesis
    using tm y(1) g(1) lt f t m(1) n
    by (simp add: post_add_def e fu tr cr)
qed

text \<open>A \<^verbatim>\<open>GET /data\<close> that follows lists the new car.\<close>

lemma add_then_data:
  assumes e: "ensureLoggedInOrDemo L st (s\<lparr>flash := None\<rparr>) = (st1, s1, uid)"
    and m: "method_trim (b_model b) = Some m" "m \<noteq> []"
    and y: "truthy (b_year b)" "jsnum_ge (Number L (b_year b)) (Finite 1885)"
    and g: "truthy (b_mpg b)" "jsnum_ge (Number L (b_mpg b)) (Finite 0)"
    and f: "js_includes allowedFuels (b_fuel b)"
    and t: "js_includes allowedTransmissions (b_transmission b)"
    and n: "opt_trim_or_empty (b_notes b) = Some n"
    and out: "out = handle L now st s (PostAdd b)"
  shows "resp out = Redirect ''/dashboard'' \<and>
     (\<exists>cs. resp (handle L now' (db out) (sess out) GetData) = JsonCars cs \<and>
        \<lparr>car_id = fresh_oid st1, owner = uid, model = Some m,
         year = Number L (b_year b), mpg = Number L (b_mpg b), car_notes = Some n,
         fuel = castString L (b_fuel b), isElectric = isElectric_json (b_isElectric b),
         transmission = castString L (b_transmission b), createdAt = now, updatedAt = now\<rparr>
        \<in> set cs)"
proof -
  have u: "userId s1 = Some uid" using e by (rule ensure_session)
  have o: "out = \<lparr>db = st1\<lparr>cars := cars st1 @
         [\<lparr>car_id = fresh_oid st1, owner = uid, model = Some m,
           year = Number L (b_year b), mpg = Number L (b_mpg b), car_notes = Some n,
           fuel = castString L (b_fuel b), isElectric = isElectric_json (b_isElectric b),
           transmission = castString L (b_transmission b), createdAt = now, updatedAt = now\<rparr>]\<rparr>,
      sess = s1, resp = Redirect ''/dashboard''\<rparr>"
    by (simp add: out handle_def post_add_success [OF e m y g f t n])
  have e2: "ensureLoggedInOrDemo L (db out) (sess out\<lparr>flash := None\<rparr>) =
            (db out, sess out\<lparr>flash := None\<rparr>, uid)"
    by (rule ensure_logged_in) (simp add: o u)
  show ?thesis
    by (simp add: handle_def get_data_def e2) (simp add: o Car_find_def)
qed

text \<open>
  C2 says that every valid payload, with mpg any non-negative number, is stored and
  listed. The code takes the number 0 for a missing field: Alice's Civic with mpg 0,
  which \<^verbatim>\<open>carSchema\<close> allows (\<^verbatim>\<open>min: 0\<close>), is answered with the 400 of the required
  fields, nothing is stored, and her list stays empty.
\<close>

theorem add_zero_mpg:
  "handle sample_lib 20 store0 as_alice (PostAdd (civic\<lparr>b_mpg := JNum (Finite 0)\<rparr>)) =
     \<lparr>db = store0, sess = as_alice,
      resp = JsonError 400 ''Model, year, and MPG are required fields.''\<rparr>
   \<and> resp (handle sample_lib 21 store0 as_alice GetData) = JsonCars []"
  by (simp add: js_defs mongoose_defs handler_defs sample_defs Let_def)

text \<open>
  C4, as the code has it: a payload whose year is below 1885 is always answered with a
  400; its message is ``Year must be 1885 or later.'' when model, year and mpg are all
  truthy, and the message of the required fields otherwise, since that check comes
  first. A payload with year 1885 is accepted when its model is a string that is not
  empty after trimming, its mpg is truthy and at least 0, its fuel and transmission are
  among the allowed values and its notes are absent, null or a string: the response is
  the redirect and the store has one more car, of year 1885.
\<close>

theorem add_year_bound:
  "(js_lt L (b_year b) (Finite 1885) \<longrightarrow>
      resp (handle L now st s (PostAdd b)) =
        JsonError 400 (if truthy (b_model b) \<and> truthy (b_year b) \<and> truthy (b_mpg b)
                       then ''Year must be 1885 or later.''
                       else ''Model, year, and MPG are required fields.''))
   \<and> (b_year b = JNum (Finite 1885) \<and> method_trim (b_model b) = Some m \<and> m \<noteq> [] \<and>
      truthy (b_mpg b) \<and> jsnum_ge (Number L (b_mpg b)) (Finite 0) \<and>
      js_includes allowedFuels (b_fuel b) \<and>
      js_includes allowedTransmissions (b_transmission b) \<and>
      opt_trim_or_empty (b_notes b) = Some n \<longrightarrow>
      resp (handle L now st s (PostAdd b)) = Redirect ''/dashboard'' \<and>
      length (cars (db (handle L now st s (PostAdd b)))) = Suc (length (cars st)) \<and>
      year (last (cars (db (handle L now st s (PostAdd b))))) = Finite 1885)"
proof -
  obtain st1 s1 uid where e: "ensureLoggedInOrDemo L st (s\<lparr>flash := None\<rparr>) = (st1, s1, uid)"
    by (cases "ensureLoggedInOrDemo L st (s\<lparr>flash := None\<rparr>)") auto
  have c1: "cars st1 = cars st" using ensure_cars [of L st "s\<lparr>flash := None\<rparr>"] e by simp
  have 1: "js_lt L (b_year b) (Finite 1885) \<Longrightarrow>
      resp (handle L now st s (PostAdd b)) =
        JsonError 400 (if truthy (b_model b) \<and> truthy (b_year b) \<and> truthy (b_mpg b)
                       then ''Year must be 1885 or later.''
                       else ''Model, year, and MPG are required fields.'')"
    by (simp add: handle_def post_add_def e)
  have 2: "resp (handle L now st s (PostAdd b)) = Redirect ''/dashboard'' \<and>
      length (cars (db (handle L now st s (PostAdd b)))) = Suc (length (cars st)) \<and>
      year (last (cars (db (handle L now st s (PostAdd b))))) = Finite 1885"
    if h: "b_year b = JNum (Finite 1885)" "method_trim (b_model b) = Some m" "m \<noteq> []"
      "truthy (b_mpg b)" "jsnum_ge (Number L (b_mpg b)) (Finite 0)"
      "js_includes allowedFuels (b_fuel b)"
      "js_includes allowedTransmissions (b_transmission b)"
      "opt_trim_or_empty (b_notes b) = Some n"
  proof -
    have y: "truthy (b_year b)" "jsnum_ge (Number L (b_year b)) (Finite 1885)"
      using h(1) by (simp_all add: Number_def)
    have n: "Number L (b_year b) = Finite 1885" using h(1) by (simp add: Number_def)
    show ?thesis
      by (simp add: handle_def post_add_success [OF e h(2) h(3) y h(4) h(5) h(6) h(7) h(8)] c1 n)
  qed
  from 1 2 show ?thesis by blast
qed

theorem add_year_bound_witness:
  "resp (handle sample_lib 20 store0 as_alice (PostAdd (civic\<lparr>b_year := JNum (Finite 1800)\<rparr>))) =
     JsonError 400 ''Year must be 1885 or later.''
   \<and> resp (handle sample_lib 20 store0 as_alice (PostAdd (civic\<lparr>b_year := JNum (Finite 1885)\<rparr>))) =
     Redirect ''/dashboard''"
proof -
  have 1: "js_lt sample_lib (b_year (civic\<lparr>b_year := JNum (Finite 1800)\<rparr>)) (Finite 1885)"
    by (simp add: js_lt_def)
  have 2: "truthy (b_model (civic\<lparr>b_year := JNum (Finite 1800)\<rparr>))
         \<and> truthy (b_year (civic\<lparr>b_year := JNum (Finite 1800)\<rparr>))
         \<and> truthy (b_mpg (civic\<lparr>b_year := JNum (Finite 1800)\<rparr>))"
    by (simp add: civic_def)
  have 3: "b_year (civic\<lparr>b_year := JNum (Finite 1885)\<rparr>) = JNum (Finite 1885)
         \<and> method_trim (b_model (civic\<lparr>b_year := JNum (Finite 1885)\<rparr>)) = Some ''Civic''
         \<and> ''Civic'' \<noteq> []
         \<and> truthy (b_mpg (civic\<lparr>b_year := JNum (Finite 1885)\<rparr>))
         \<and> jsnum_ge (Number sample_lib (b_mpg (civic\<lparr>b_year := JNum (Finite 1885)\<rparr>))) (Finite 0)
         \<and> js_includes allowedFuels (b_fuel (civic\<lparr>b_year := JNum (Finite 1885)\<rparr>))
         \<and> js_includes allowedTransmissions (b_transmission (civic\<lparr>b_year := JNum (Finite 1885)\<rparr>))
         \<and> opt_trim_or_empty (b_notes (civic\<lparr>b_year := JNum (Finite 1885)\<rparr>)) = Some []"
    by (simp add: civic_def empty_body_def js_defs allowedFuels_def allowedTransmissions_def)
  show ?thesis
    using add_year_bound [of sample_lib "civic\<lparr>b_year := JNum (Finite 1800)\<rparr>" 20 store0 as_alice]
      add_year_bound [of sample_lib "civic\<lparr>b_year := JNum (Finite 1885)\<rparr>" 20 store0 as_alice
         "''Civic''" "[]"] 1 2 3
    by simp
qed

text \<open>
  The claim as it was written gives every year below 1885 the message about the year.
  The year 0, on a payload that is valid otherwise, gets the other message.
\<close>

theorem add_year_zero_counterexample:
  "resp (handle sample_lib 20 store0 as_alice (PostAdd (civic\<lparr>b_year := JNum (Finite 0)\<rparr>))) =
     JsonError 400 ''Model, year, and MPG are required fields.''"
  by (simp add: js_defs mongoose_defs handler_defs sample_defs Let_def)

text \<open>
  C6 says that an mpg out of range is a validation error and gets a 400. The handler
  checks the range of the year but not that of mpg: the mpg -5 passes its checks, fails
  the \<^verbatim>\<open>min: 0\<close> of \<^verbatim>\<open>carSchema\<close> inside \<^verbatim>\<open>Car.create\<close>, and is answered with the 500
  of the \<^verbatim>\<open>catch\<close>.
\<close>

theorem add_negative_mpg:
  "handle sample_lib 20 store0 as_alice (PostAdd (civic\<lparr>b_mpg := JNum (Finite (- 5))\<rparr>)) =
     \<lparr>db = store0, sess = as_alice, resp = JsonError 500 ''Failed to add car.''\<rparr>"
  by (simp add: js_defs mongoose_defs handler_defs sample_defs Let_def)

section \<open>Fuel and transmission\<close>

text \<open>
  C5 says that every create and every update rejects a fuel or a transmission outside
  the allowed values. \<^verbatim>\<open>POST /add\<close> does; the two update routes hand the values to
  \<^verbatim>\<open>Car.updateOne\<close>, which does not run the validators of \<^verbatim>\<open>carSchema\<close>: Bob's update
  of his own car stores the fuel ``coal'' and the transmission ``warp''.
\<close>

theorem modify_stores_any_fuel:
  "map fuel (cars (db (handle sample_lib 20 store0 as_bob
      (PostModify (civic\<lparr>b_id := JStr ''3'', b_fuel := JStr ''coal'',
                         b_transmission := JStr ''warp''\<rparr>))))) = [Some ''coal'']
   \<and> map transmission (cars (db (handle sample_lib 20 store0 as_bob
      (PostCarsUpdate ''3'' (civic\<lparr>b_fuel := JStr ''coal'',
                         b_transmission := JStr ''warp''\<rparr>))))) = [Some ''warp'']"
  by (simp add: js_defs mongoose_defs handler_defs sample_defs Let_def)

section \<open>The responses of the JSON routes\<close>




section \<open>Listings\<close>

text \<open>The list of the dashboard is the list it is given, latest first.\<close>

lemma dashboard_latest_first:
  "sorted (map (\<lambda>c. - int (createdAt c)) (sort_createdAt_desc cs)) \<and>
   set (sort_createdAt_desc cs) = set cs \<and> length (sort_createdAt_desc cs) = length cs"
  by (simp add: sort_createdAt_desc_def)

text \<open>
  C8 says that all three listings are ordered latest first. Only \<^verbatim>\<open>GET /dashboard\<close>
  sorts; \<^verbatim>\<open>GET /data\<close> and \<^verbatim>\<open>GET /api/me\<close> return the cars in the order of the store.
  Alice adds a Civic at time 20 and a Leaf at time 21: the two JSON routes list the Civic
  first, the dashboard lists the Leaf first.
\<close>

theorem data_oldest_first:
  "(case resp (handle sample_lib 22
           (fst (run sample_lib store0 as_alice [(20, PostAdd civic), (21, PostAdd leaf)]))
           (snd (run sample_lib store0 as_alice [(20, PostAdd civic), (21, PostAdd leaf)]))
           GetData) of
      JsonCars cs \<Rightarrow> map (\<lambda>c. (model c, createdAt c)) cs
    | _ \<Rightarrow> []) = [(Some ''Civic'', 20), (Some ''Leaf'', 21)]
  \<and> (case resp (handle sample_lib 22
           (fst (run sample_lib store0 as_alice [(20, PostAdd civic), (21, PostAdd leaf)]))
           (snd (run sample_lib store0 as_alice [(20, PostAdd civic), (21, PostAdd leaf)]))
           GetApiMe) of
      JsonMe u cs \<Rightarrow> map (\<lambda>c. (model c, createdAt c)) cs
    | _ \<Rightarrow> []) = [(Some ''Civic'', 20), (Some ''Leaf'', 21)]
  \<and> (case resp (handle sample_lib 22
           (fst (run sample_lib store0 as_alice [(20, PostAdd civic), (21, PostAdd leaf)]))
           (snd (run sample_lib store0 as_alice [(20, PostAdd civic), (21, PostAdd leaf)]))
           GetDashboard) of
      RenderDashboard fl u cs \<Rightarrow> map (\<lambda>c. (model c, createdAt c)) cs
    | _ \<Rightarrow> []) = [(Some ''Leaf'', 21), (Some ''Civic'', 20)]"
  by (simp add: js_defs mongoose_defs handler_defs sample_defs leaf_def Let_def)

end
